theory Spec2Isabelle
  imports Main "HOL-Library.Word" "HOL-Library.Signed_Division" "HOL-Library.Multiset"
    "HOL-Library.Sublist"
begin

section \<open>Go values and the standard-library functions the command layer uses\<close>

text \<open>
  Go's \<open>int\<close> is 64 bits wide on the platforms the mount command is built for
  (amd64, arm64); \<open>int64\<close>, \<open>uint64\<close> and \<open>time.Duration\<close> (nanoseconds) are
  64-bit as well, \<open>uint32\<close> is 32-bit.  Signed values are read with \<open>sint\<close>, unsigned ones
  with \<open>uint\<close>; \<open>+\<close> and \<open>*\<close> wrap around as in Go.
\<close>

type_synonym go_int = "64 word"
type_synonym int64 = "64 word"
type_synonym uint64 = "64 word"
type_synonym uint32 = "32 word"
type_synonym duration = "64 word"

text \<open>Go's \<open>/\<close> on signed integers truncates towards zero.\<close>

definition go_quot :: "64 word \<Rightarrow> 64 word \<Rightarrow> 64 word" where
  "go_quot a b = word_of_int (sint a sdiv sint b)"

text \<open>\<open>time.Second\<close> and \<open>time.Hour\<close>, in nanoseconds.\<close>

definition time_Second :: duration where
  "time_Second = 1000000000"

definition time_Hour :: duration where
  "time_Hour = 3600 * time_Second"

text \<open>\<open>strings.HasPrefix\<close>, \<open>strings.HasSuffix\<close>, \<open>strings.TrimLeft\<close>,
  \<open>strings.Contains\<close> with a one-character needle, \<open>strings.Join\<close> and
  \<open>strings.Split\<close> on a one-character separator.\<close>

definition HasPrefix :: "string \<Rightarrow> string \<Rightarrow> bool" where
  "HasPrefix s p = (take (length p) s = p)"

definition HasSuffix :: "string \<Rightarrow> string \<Rightarrow> bool" where
  "HasSuffix s p = (length p \<le> length s \<and> drop (length s - length p) s = p)"

definition TrimLeft :: "string \<Rightarrow> char \<Rightarrow> string" where
  "TrimLeft s c = dropWhile (\<lambda>x. x = c) s"

definition ContainsChar :: "string \<Rightarrow> char \<Rightarrow> bool" where
  "ContainsChar s c = (c \<in> set s)"

fun strings_Join :: "string list \<Rightarrow> string \<Rightarrow> string" where
  "strings_Join [] sep = []"
| "strings_Join [d] sep = d"
| "strings_Join (d # e # ds) sep = d @ sep @ strings_Join (e # ds) sep"

fun strings_Split :: "string \<Rightarrow> char \<Rightarrow> string list" where
  "strings_Split [] sep = [[]]"
| "strings_Split (c # s) sep =
     (if c = sep then [] # strings_Split s sep
      else (case strings_Split s sep of
              [] \<Rightarrow> [[c]]
            | w # ws \<Rightarrow> (c # w) # ws))"

section \<open>The command-line library: flags, commands, contexts\<close>

text \<open>
  A \<open>cli.Flag\<close> of the kinds the sources declare.  Float values are kept abstract
  (type \<open>'f\<close>): no claim computes with them.
\<close>

datatype 'f flag =
    BoolFlag string "string list"
  | IntFlag string go_int
  | Int64Flag string int64
  | StringFlag string string
  | DurationFlag string duration
  | Float64Flag string 'f

datatype 'f flagValue =
    BoolV bool
  | IntV go_int
  | Int64V int64
  | StringV string
  | DurationV duration
  | Float64V 'f

text \<open>\<open>flag.Names()\<close>: the name followed by the aliases.\<close>

fun Names :: "'f flag \<Rightarrow> string list" where
  "Names (BoolFlag n as) = n # as"
| "Names (IntFlag n v) = [n]"
| "Names (Int64Flag n v) = [n]"
| "Names (StringFlag n v) = [n]"
| "Names (DurationFlag n v) = [n]"
| "Names (Float64Flag n v) = [n]"

text \<open>The type assertion \<open>flag.(*cli.BoolFlag)\<close>.\<close>

fun isBoolFlag :: "'f flag \<Rightarrow> bool" where
  "isBoolFlag (BoolFlag n as) = True"
| "isBoolFlag f = False"

text \<open>The value a flag has when the command line does not give it.\<close>

fun flagDefault :: "'f flag \<Rightarrow> 'f flagValue" where
  "flagDefault (BoolFlag n as) = BoolV False"
| "flagDefault (IntFlag n v) = IntV v"
| "flagDefault (Int64Flag n v) = Int64V v"
| "flagDefault (StringFlag n v) = StringV v"
| "flagDefault (DurationFlag n v) = DurationV v"
| "flagDefault (Float64Flag n v) = Float64V v"

record 'f Command =
  cmdName :: string
  cmdFlags :: "'f flag list"

record 'f App =
  appFlags :: "'f flag list"
  appCommands :: "'f Command list"

text \<open>
  A \<open>cli.Context\<close>: the value of every flag by name, the names the command line set, and
  the positional arguments.  A typed lookup of a name that has no value of that type
  returns Go's zero value, as the library does.
\<close>

record 'f Context =
  flagValues :: "string \<Rightarrow> 'f flagValue option"
  setFlags :: "string list"
  ctxArgs :: "string list"

definition c_Bool :: "'f Context \<Rightarrow> string \<Rightarrow> bool" where
  "c_Bool c name = (case flagValues c name of Some (BoolV b) \<Rightarrow> b | _ \<Rightarrow> False)"

definition c_Int :: "'f Context \<Rightarrow> string \<Rightarrow> go_int" where
  "c_Int c name = (case flagValues c name of Some (IntV n) \<Rightarrow> n | _ \<Rightarrow> 0)"

definition c_Int64 :: "'f Context \<Rightarrow> string \<Rightarrow> int64" where
  "c_Int64 c name = (case flagValues c name of Some (Int64V n) \<Rightarrow> n | _ \<Rightarrow> 0)"

definition c_String :: "'f Context \<Rightarrow> string \<Rightarrow> string" where
  "c_String c name = (case flagValues c name of Some (StringV s) \<Rightarrow> s | _ \<Rightarrow> [])"

definition c_Duration :: "'f Context \<Rightarrow> string \<Rightarrow> duration" where
  "c_Duration c name = (case flagValues c name of Some (DurationV d) \<Rightarrow> d | _ \<Rightarrow> 0)"

definition c_Float64 :: "'f \<Rightarrow> 'f Context \<Rightarrow> string \<Rightarrow> 'f" where
  "c_Float64 zero c name = (case flagValues c name of Some (Float64V x) \<Rightarrow> x | _ \<Rightarrow> zero)"

definition c_IsSet :: "'f Context \<Rightarrow> string \<Rightarrow> bool" where
  "c_IsSet c name = (name \<in> set (setFlags c))"

text \<open>The context of a command line that gives no flag: every flag has its default.\<close>

fun flagBindings :: "'f flag list \<Rightarrow> (string \<times> 'f flagValue) list" where
  "flagBindings [] = []"
| "flagBindings (f # fs) = map (\<lambda>n. (n, flagDefault f)) (Names f) @ flagBindings fs"

definition defaultContext :: "'f flag list \<Rightarrow> string list \<Rightarrow> 'f Context" where
  "defaultContext flags as =
     \<lparr>flagValues = map_of (flagBindings flags), setFlags = [], ctxArgs = as\<rparr>"

text \<open>The command line gives flag \<open>name\<close> the value \<open>v\<close>.\<close>

definition withFlag :: "string \<Rightarrow> 'f flagValue \<Rightarrow> 'f Context \<Rightarrow> 'f Context" where
  "withFlag name v c =
     c\<lparr>flagValues := (flagValues c)(name \<mapsto> v), setFlags := name # setFlags c\<rparr>"

section \<open>cmd/flags.go\<close>

definition globalFlags :: "'f flag list" where
  "globalFlags =
    [BoolFlag ''verbose'' [''debug'', ''v''],
     BoolFlag ''quiet'' [''q''],
     BoolFlag ''trace'' [],
     BoolFlag ''no-agent'' [],
     BoolFlag ''no-color'' []]"

text \<open>
  \<open>clientFlags\<close> first computes the default cache directory from \<open>runtime.GOOS\<close>; on
  darwin and windows it is \<open>path.Join(homeDir, ".juicefs", "cache")\<close>, and a failing
  \<open>os.UserHomeDir\<close> is fatal.  The operating system, the home directory lookup and
  \<open>path.Join\<close> are parameters.
\<close>

datatype exit = Panic string | Fatal string

definition defaultCacheDir ::
    "string \<Rightarrow> string option \<Rightarrow> (string list \<Rightarrow> string) \<Rightarrow> exit + string" where
  "defaultCacheDir goos homeDir path_Join =
     (if goos = ''darwin'' \<or> goos = ''windows'' then
        (case homeDir of
           None \<Rightarrow> Inl (Fatal ''UserHomeDir'')
         | Some h \<Rightarrow> Inr (path_Join [h, ''.juicefs'', ''cache'']))
      else Inr ''/var/jfsCache'')"

text \<open>
  The flag list itself, given the default cache directory and the two float literals
  \<open>0.1\<close> and \<open>0.0\<close> as float64 values.
\<close>

definition clientFlags :: "string \<Rightarrow> 'f \<Rightarrow> 'f \<Rightarrow> 'f flag list" where
  "clientFlags cacheDir f_0_1 f_0_0 =
    [StringFlag ''bucket'' [],
     IntFlag ''get-timeout'' 60,
     IntFlag ''put-timeout'' 60,
     IntFlag ''io-retries'' 30,
     IntFlag ''max-uploads'' 20,
     IntFlag ''max-deletes'' 2,
     IntFlag ''buffer-size'' 300,
     Int64Flag ''upload-limit'' 0,
     Int64Flag ''download-limit'' 0,
     IntFlag ''prefetch'' 1,
     BoolFlag ''writeback'' [],
     DurationFlag ''upload-delay'' 0,
     StringFlag ''cache-dir'' cacheDir,
     IntFlag ''cache-size'' (push_bit 10 100),
     Float64Flag ''free-space-ratio'' f_0_1,
     BoolFlag ''cache-partial-only'' [],
     DurationFlag ''backup-meta'' time_Hour,
     BoolFlag ''read-only'' [],
     BoolFlag ''no-bgjob'' [],
     Float64Flag ''open-cache'' f_0_0,
     StringFlag ''subdir'' []]"

definition shareInfoFlags :: "'f flag list" where
  "shareInfoFlags =
    [StringFlag ''metrics'' ''127.0.0.1:9567'',
     StringFlag ''consul'' ''127.0.0.1:8500'',
     BoolFlag ''no-usage-report'' []]"

fun expandFlags :: "'f flag list list \<Rightarrow> 'f flag list" where
  "expandFlags [] = []"
| "expandFlags (flag # compoundFlags) = flag @ expandFlags compoundFlags"

section \<open>cmd/main.go: reordering the command line\<close>

fun stringContains :: "string list \<Rightarrow> string \<Rightarrow> bool" where
  "stringContains [] e = False"
| "stringContains (item # s) e = (if item = e then True else stringContains s e)"

text \<open>The inner loop of \<open>isFlag\<close> over \<open>flag.Names()\<close>, and the outer one over the flags.\<close>

fun matchesName :: "string \<Rightarrow> string list \<Rightarrow> bool" where
  "matchesName option [] = False"
| "matchesName option (name # names) =
     (if option = name \<or> HasPrefix option (name @ ''='') then True
      else matchesName option names)"

fun isFlagLoop :: "'f flag list \<Rightarrow> string \<Rightarrow> bool \<times> bool" where
  "isFlagLoop [] option = (False, False)"
| "isFlagLoop (flag # flags) option =
     (if matchesName option (Names flag)
      then (True, \<not> isBoolFlag flag \<and> \<not> ContainsChar option CHR ''='')
      else isFlagLoop flags option)"

definition isFlag :: "'f flag list \<Rightarrow> string \<Rightarrow> bool \<times> bool" where
  "isFlag flags option =
     (if HasPrefix option ''-'' then isFlagLoop flags (TrimLeft option CHR ''-'')
      else (False, False))"

text \<open>\<open>cli.VersionFlag\<close> as \<open>Main\<close> sets it, and the library's \<open>cli.HelpFlag\<close>.\<close>

definition VersionFlag :: "'f flag" where
  "VersionFlag = BoolFlag ''version'' [''V'']"

definition HelpFlag :: "'f flag" where
  "HelpFlag = BoolFlag ''help'' [''h'']"

text \<open>
  The first loop of \<open>reorderOptions\<close>, over the arguments still to read, with the two
  slices it appends to.  \<open>args[i]\<close> after \<open>i++\<close> is out of range when a flag that takes a
  value is the last argument: a run-time panic.
\<close>

fun globalLoop ::
    "'f flag list \<Rightarrow> string list \<Rightarrow> string list \<Rightarrow> string list
      \<Rightarrow> exit + (string list \<times> string list)" where
  "globalLoop gflags [] newArgs others = Inr (newArgs, others)"
| "globalLoop gflags (option # rest) newArgs others =
     (if fst (isFlag gflags option) then
        (if snd (isFlag gflags option) then
           (case rest of
              [] \<Rightarrow> Inl (Panic ''index out of range'')
            | v # rest' \<Rightarrow> globalLoop gflags rest' (newArgs @ [option, v]) others)
         else globalLoop gflags rest (newArgs @ [option]) others)
      else globalLoop gflags rest newArgs (others @ [option]))"

text \<open>
  The second loop, over the arguments after the command name (\<open>args\<close> is that whole list,
  searched for \<open>--generate-bash-completion\<close>).  An unknown dashed option is fatal.
\<close>

fun commandLoop ::
    "'f flag list \<Rightarrow> string list \<Rightarrow> string list \<Rightarrow> string list \<Rightarrow> string list
      \<Rightarrow> exit + (string list \<times> string list)" where
  "commandLoop cflags args [] newArgs others = Inr (newArgs, others)"
| "commandLoop cflags args (option # rest) newArgs others =
     (if fst (isFlag cflags option) then
        (if snd (isFlag cflags option) then
           (case rest of
              [] \<Rightarrow> Inl (Panic ''index out of range'')
            | v # rest' \<Rightarrow> commandLoop cflags args rest' (newArgs @ [option, v]) others)
         else commandLoop cflags args rest (newArgs @ [option]) others)
      else
        (if HasPrefix option ''-'' \<and> \<not> stringContains args ''--generate-bash-completion''
         then Inl (Fatal (''unknown option: '' @ option))
         else commandLoop cflags args rest newArgs (others @ [option])))"

text \<open>The search for the command: the last command of that name wins.\<close>

fun findCommand :: "'f Command list \<Rightarrow> string \<Rightarrow> 'f Command option \<Rightarrow> 'f Command option" where
  "findCommand [] name cmd = cmd"
| "findCommand (c # cs) name cmd =
     (if cmdName c = name then findCommand cs name (Some c) else findCommand cs name cmd)"

definition reorderOptions :: "'f App \<Rightarrow> string list \<Rightarrow> exit + string list" where
  "reorderOptions app args =
     (case args of
        [] \<Rightarrow> Inl (Panic ''index out of range'')
      | arg0 # rest \<Rightarrow>
          (case globalLoop (appFlags app @ [VersionFlag]) rest [arg0] [] of
             Inl e \<Rightarrow> Inl e
           | Inr (newArgs, others) \<Rightarrow>
               (case others of
                  [] \<Rightarrow> Inr newArgs
                | name # args' \<Rightarrow>
                    (case findCommand (appCommands app) name None of
                       None \<Rightarrow> Inr (newArgs @ others)
                     | Some cmd \<Rightarrow>
                         (case commandLoop (cmdFlags cmd @ [HelpFlag]) args' args'
                                 (newArgs @ [name]) [] of
                            Inl e \<Rightarrow> Inl e
                          | Inr (newArgs', others') \<Rightarrow> Inr (newArgs' @ others'))))))"

text \<open>
  What the claim about \<open>reorderOptions\<close> calls "recognized flags with their values": a
  list made of recognized flags only, each flag that takes a value followed by one more
  element.
\<close>

fun flagRun :: "'f flag list \<Rightarrow> string list \<Rightarrow> bool" where
  "flagRun fl [] = True"
| "flagRun fl (x # xs) =
     (fst (isFlag fl x) \<and>
      (if snd (isFlag fl x) then (case xs of [] \<Rightarrow> False | v # r \<Rightarrow> flagRun fl r)
       else flagRun fl xs))"

section \<open>The mount command: building the configurations\<close>

text \<open>
  \<open>cmdMount\<close>: the platform's \<open>mount_flags()\<close> is a parameter, as are the arguments of
  \<open>clientFlags\<close>.
\<close>

definition cmdMount :: "'f flag list \<Rightarrow> string \<Rightarrow> 'f \<Rightarrow> 'f \<Rightarrow> 'f Command" where
  "cmdMount mount_flags cacheDir f_0_1 f_0_0 =
     \<lparr>cmdName = ''mount'',
      cmdFlags = expandFlags [mount_flags, clientFlags cacheDir f_0_1 f_0_0, shareInfoFlags]\<rparr>"

text \<open>The fields of \<open>meta.Format\<close> that the mount command reads.\<close>

record Format =
  format_Name :: string
  format_UUID :: string
  format_BlockSize :: go_int
  format_Compression :: string
  format_Bucket :: string

text \<open>\<open>meta.Config\<close> as \<open>getMetaConf\<close> and \<open>mount\<close> fill it.\<close>

record MetaConfig =
  Retries :: go_int
  Strict :: bool
  CaseInsensi :: bool
  ReadOnly :: bool
  NoBGJob :: bool
  OpenCache :: duration
  MountPoint :: string
  Subdir :: string
  MaxDeletes :: go_int

text \<open>
  \<open>chunk.Config\<close>: the fields that \<open>getChunkConf\<close> and \<open>mount\<close> assign.  \<open>FreeSpace\<close> is
  a float32, kept abstract (type \<open>'g\<close>); \<open>CacheMode\<close> is an \<open>os.FileMode\<close>, a uint32.
\<close>

record 'g ChunkConfig =
  BlockSize :: go_int
  Compress :: string
  GetTimeout :: duration
  PutTimeout :: duration
  MaxUpload :: go_int
  Writeback :: bool
  UploadDelay :: duration
  Prefetch :: go_int
  BufferSize :: go_int
  UploadLimit :: int64
  DownloadLimit :: int64
  CacheDir :: string
  CacheSize :: int64
  FreeSpace :: 'g
  CacheMode :: uint32
  CacheFullBlock :: bool
  AutoCreate :: bool

text \<open>
  What the configuration builders take from outside this package: \<open>utils.SplitDir\<close>,
  \<open>filepath.Join\<close> and \<open>os.PathListSeparator\<close>, \<open>runtime.GOOS\<close>, and the float
  operations (the conversion \<open>float32(x)\<close>, the float64 zero that a lookup of an unknown
  flag returns, and \<open>time.Duration(x * 1e9)\<close>).
\<close>

record ('f, 'g) Env =
  SplitDir :: "string \<Rightarrow> string list"
  filepath_Join :: "string \<Rightarrow> string \<Rightarrow> string"
  PathListSeparator :: char
  GOOS :: string
  float32 :: "'f \<Rightarrow> 'g"
  float64_zero :: 'f
  seconds_to_Duration :: "'f \<Rightarrow> duration"

definition getMetaConf :: "('f, 'g) Env \<Rightarrow> 'f Context \<Rightarrow> string \<Rightarrow> bool \<Rightarrow> MetaConfig" where
  "getMetaConf env c mp readOnly =
     \<lparr>Retries = 10,
      Strict = True,
      CaseInsensi = False,
      ReadOnly = readOnly,
      NoBGJob = c_Bool c ''no-bgjob'',
      OpenCache = seconds_to_Duration env (c_Float64 (float64_zero env) c ''open-cache''),
      MountPoint = mp,
      Subdir = c_String c ''subdir'',
      MaxDeletes = c_Int c ''max-deletes''\<rparr>"

text \<open>
  \<open>getChunkConf\<close>.  \<open>UploadDelay\<close> is not in the composite literal and so starts as Go's
  zero value; \<open>x << 20\<close> is \<open>push_bit 20 x\<close>; \<open>1e6\<close> is the int64 constant 1000000;
  \<open>os.FileMode(0600)\<close> is octal.
\<close>

definition getChunkConf :: "('f, 'g) Env \<Rightarrow> 'f Context \<Rightarrow> Format \<Rightarrow> 'g ChunkConfig" where
  "getChunkConf env c format =
     (let chunkConf =
        \<lparr>BlockSize = format_BlockSize format * 1024,
         Compress = format_Compression format,
         GetTimeout = time_Second * c_Int c ''get-timeout'',
         PutTimeout = time_Second * c_Int c ''put-timeout'',
         MaxUpload = c_Int c ''max-uploads'',
         Writeback = c_Bool c ''writeback'',
         UploadDelay = 0,
         Prefetch = c_Int c ''prefetch'',
         BufferSize = push_bit 20 (c_Int c ''buffer-size''),
         UploadLimit = go_quot (c_Int64 c ''upload-limit'' * 1000000) 8,
         DownloadLimit = go_quot (c_Int64 c ''download-limit'' * 1000000) 8,
         CacheDir = c_String c ''cache-dir'',
         CacheSize = c_Int c ''cache-size'',
         FreeSpace = float32 env (c_Float64 (float64_zero env) c ''free-space-ratio''),
         CacheMode = 384,
         CacheFullBlock = (\<not> c_Bool c ''cache-partial-only''),
         AutoCreate = True\<rparr>
      in if CacheDir chunkConf \<noteq> ''memory'' then
           (let ds = SplitDir env (CacheDir chunkConf);
                ds = map (\<lambda>d. filepath_Join env d (format_UUID format)) ds
            in chunkConf\<lparr>CacheDir := strings_Join ds [PathListSeparator env]\<rparr>)
         else chunkConf)"

text \<open>
  \<open>getFormat\<close>: the result of \<open>metaCli.Load\<close> is a parameter (an error message or a
  format); a failing load is fatal.
\<close>

definition getFormat :: "'f Context \<Rightarrow> string + Format \<Rightarrow> exit + Format" where
  "getFormat c loaded =
     (case loaded of
        Inl err \<Rightarrow> Inl (Fatal (''load setting: '' @ err))
      | Inr format \<Rightarrow>
          (if c_IsSet c ''bucket'' then Inr (format\<lparr>format_Bucket := c_String c ''bucket''\<rparr>)
           else Inr format))"

text \<open>
  \<open>mount\<close>, from its first line to the construction of the store: the positional
  arguments (\<open>setup\<close> exits when there are fewer than two), the read-only option, the two
  configurations, and the warnings logged on the way.
\<close>

record 'g MountConfigs =
  mc_warnings :: "string list"
  mc_metaConf :: MetaConfig
  mc_format :: Format
  mc_chunkConf :: "'g ChunkConfig"

definition mountConfigs ::
    "('f, 'g) Env \<Rightarrow> 'f Context \<Rightarrow> string + Format \<Rightarrow> exit + 'g MountConfigs" where
  "mountConfigs env c loaded =
     (if length (ctxArgs c) < 2 then Inl (Fatal ''This command requires at least 2 arguments'')
      else
        (let mp = ctxArgs c ! 1;
             readOnly = (c_Bool c ''read-only''
                         \<or> ''ro'' \<in> set (strings_Split (c_String c ''o'') CHR '',''));
             metaConf = getMetaConf env c mp readOnly;
             metaConf = metaConf\<lparr>CaseInsensi := (HasSuffix mp '':'' \<and> GOOS env = ''windows'')\<rparr>
         in case getFormat c loaded of
              Inl e \<Rightarrow> Inl e
            | Inr format \<Rightarrow>
                (let warnings =
                       (if \<not> c_Bool c ''writeback'' \<and> c_IsSet c ''upload-delay''
                        then [''delayed upload only work in writeback mode''] else []);
                     chunkConf = getChunkConf env c format;
                     chunkConf = chunkConf\<lparr>UploadDelay := c_Duration c ''upload-delay''\<rparr>
                 in Inr \<lparr>mc_warnings = warnings, mc_metaConf = metaConf,
                         mc_format = format, mc_chunkConf = chunkConf\<rparr>)))"

text \<open>A value fits Go's int64 when it lies in the signed 64-bit range.\<close>

definition fits64 :: "int \<Rightarrow> bool" where
  "fits64 x = (- (2 ^ 63) \<le> x \<and> x < 2 ^ 63)"

section \<open>The messages of the metadata engine\<close>

text \<open>
  The handlers take their arguments as \<open>...interface{}\<close>; a type assertion on a value of
  another type, or an index past the arguments, panics.  The store's \<open>Remove\<close> and
  \<open>vfs.Compact\<close> are outside this package: they are parameters, each a state transformer
  that returns its error result (\<open>None\<close> for \<open>nil\<close>).
\<close>

datatype 'sl iface = U64 uint64 | U32 uint32 | Slices "'sl list" | Str string

datatype msgType = DeleteChunk | CompactChunk

record ('st, 'e) ChunkStore =
  Remove :: "uint64 \<Rightarrow> go_int \<Rightarrow> 'st \<Rightarrow> 'e option \<times> 'st"

type_synonym ('st, 'e, 'sl) handler = "'sl iface list \<Rightarrow> exit + ('st \<Rightarrow> 'e option \<times> 'st)"

definition deleteChunkHandler :: "('st, 'e) ChunkStore \<Rightarrow> ('st, 'e, 'sl) handler" where
  "deleteChunkHandler store args =
     (case args of
        U64 chunkID # U32 blockSize # _ \<Rightarrow> Inr (Remove store chunkID (ucast blockSize))
      | _ \<Rightarrow> Inl (Panic ''interface conversion''))"

definition compactChunkHandler ::
    "('cfg \<Rightarrow> ('st, 'e) ChunkStore \<Rightarrow> 'sl list \<Rightarrow> uint64 \<Rightarrow> 'st \<Rightarrow> 'e option \<times> 'st)
      \<Rightarrow> 'cfg \<Rightarrow> ('st, 'e) ChunkStore \<Rightarrow> ('st, 'e, 'sl) handler" where
  "compactChunkHandler vfs_Compact chunkConf store args =
     (case args of
        Slices slices # U64 chunkID # _ \<Rightarrow> Inr (vfs_Compact chunkConf store slices chunkID)
      | _ \<Rightarrow> Inl (Panic ''interface conversion''))"

text \<open>\<open>m.OnMsg\<close> stores the callback under the message type.\<close>

definition OnMsg ::
    "(msgType \<Rightarrow> ('st, 'e, 'sl) handler option) \<Rightarrow> msgType \<Rightarrow> ('st, 'e, 'sl) handler
      \<Rightarrow> (msgType \<Rightarrow> ('st, 'e, 'sl) handler option)" where
  "OnMsg m mtype cb = m(mtype \<mapsto> cb)"

definition registerMetaMsg ::
    "('cfg \<Rightarrow> ('st, 'e) ChunkStore \<Rightarrow> 'sl list \<Rightarrow> uint64 \<Rightarrow> 'st \<Rightarrow> 'e option \<times> 'st)
      \<Rightarrow> (msgType \<Rightarrow> ('st, 'e, 'sl) handler option) \<Rightarrow> ('st, 'e) ChunkStore \<Rightarrow> 'cfg
      \<Rightarrow> (msgType \<Rightarrow> ('st, 'e, 'sl) handler option)" where
  "registerMetaMsg vfs_Compact m store chunkConf =
     OnMsg (OnMsg m DeleteChunk (deleteChunkHandler store))
       CompactChunk (compactChunkHandler vfs_Compact chunkConf store)"

section \<open>Example inputs\<close>

text \<open>
  A Linux environment in which cache directories are separated by colons and joining two
  clean path elements puts a slash between them; floats are not interpreted.
\<close>

definition example_env :: "(unit, unit) Env" where
  "example_env =
     \<lparr>SplitDir = (\<lambda>d. strings_Split d CHR '':''),
      filepath_Join = (\<lambda>d e. d @ ''/'' @ e),
      PathListSeparator = CHR '':'',
      GOOS = ''linux'',
      float32 = (\<lambda>x. x),
      float64_zero = (),
      seconds_to_Duration = (\<lambda>x. 0)\<rparr>"

definition example_format :: Format where
  "example_format =
     \<lparr>format_Name = ''myjfs'', format_UUID = ''0a1b2c'', format_BlockSize = 4096,
      format_Compression = ''none'', format_Bucket = []\<rparr>"

definition example_mount_flags :: "unit flag list" where
  "example_mount_flags = [BoolFlag ''d'' [''background''], StringFlag ''o'' []]"

definition example_app :: "unit App" where
  "example_app =
     \<lparr>appFlags = globalFlags,
      appCommands = [cmdMount example_mount_flags ''/var/jfsCache'' () ()]\<rparr>"

text \<open>\<open>juicefs mount redis://localhost /mnt/jfs\<close> with every flag at its default.\<close>

definition example_ctx :: "unit Context" where
  "example_ctx =
     defaultContext (cmdFlags (cmdMount example_mount_flags ''/var/jfsCache'' () ()))
       [''redis://localhost'', ''/mnt/jfs'']"

section \<open>The cached chunk store\<close>

text \<open>
  The cached store (\<open>pkg/chunk\<close>: \<open>chunk.NewCachedStore\<close> and the \<open>ChunkStore\<close> it
  returns, with its \<open>Remove\<close>) is not among the sources: what follows is modelled from
  the specification, sections 3, 4, 6 and 7.  The model is sequential.  It leaves out what
  has no effect on the bytes a call returns: compression, the bandwidth limiters,
  timeouts, recency (the victims of an eviction are an input) and prefetch.
\<close>

type_synonym byte = "8 word"

text \<open>Modelled from the spec: a block's identity is (chunk id, block index, size);
  the adapter's keys are derived from it.\<close>

type_synonym blockKey = "uint64 \<times> nat \<times> nat"

text \<open>Modelled from the spec: the states of a cache entry.  Eviction is atomic here,
  so the transient state "evicting" does not appear.\<close>

datatype entryState = Staging | Clean

text \<open>Modelled from the spec: the errors of section 7 that a call can return.\<close>

datatype storeError = InvalidArgument | OutOfRange | Corruption | TransientIO | NotFound
  | RetriesExhausted

text \<open>Modelled from the spec: the knobs of the configuration surface that decide what
  a call returns (\<open>io-retries\<close> is the number of attempts in total).\<close>

record StoreConf =
  sc_BlockSize :: nat
  sc_Writeback :: bool
  sc_MaxRetries :: nat
  sc_CacheFullBlock :: bool

text \<open>Modelled from the spec: a sealed slice, a contiguous write at an offset of the
  chunk, with the ids of the blocks that hold its bytes.\<close>

record Slice =
  sl_off :: nat
  sl_len :: nat
  sl_keys :: "blockKey list"

text \<open>
  Modelled from the spec: the state of the store.  Per chunk, the open slice buffer (the
  writes not yet sealed, in submission order), the sealed slices (newest first) and the
  number of blocks made so far, so that a new block gets a new id; the cache; the
  staged blocks waiting for upload; the objects of the remote store; and the outcomes
  of the coming calls of the adapter (\<open>True\<close> is a transient failure; past the end of
  the list every call goes through).
\<close>

record Store =
  buffer :: "uint64 \<Rightarrow> (nat \<times> byte list) list"
  sealed :: "uint64 \<Rightarrow> Slice list"
  nextIndex :: "uint64 \<Rightarrow> nat"
  cache :: "blockKey \<Rightarrow> (entryState \<times> byte list) option"
  pending :: "blockKey list"
  remote :: "blockKey \<Rightarrow> byte list option"
  faults :: "bool list"

text \<open>Modelled from the spec: a new store, empty, over an empty remote store.\<close>

definition newStore :: "bool list \<Rightarrow> Store" where
  "newStore fs =
     \<lparr>buffer = (\<lambda>c. []), sealed = (\<lambda>c. []), nextIndex = (\<lambda>c. 0), cache = (\<lambda>k. None),
      pending = [], remote = (\<lambda>k. None), faults = fs\<rparr>"

subsection \<open>The object storage adapter\<close>

text \<open>Modelled from the spec: one call of the adapter takes the next scheduled
  outcome.\<close>

definition adapterCall :: "Store \<Rightarrow> bool \<times> Store" where
  "adapterCall s = (case faults s of [] \<Rightarrow> (False, s) | f # fs \<Rightarrow> (f, s\<lparr>faults := fs\<rparr>))"

text \<open>Modelled from the spec: \<open>put(key, bytes) -> error\<close>.\<close>

definition adapter_put :: "blockKey \<Rightarrow> byte list \<Rightarrow> Store \<Rightarrow> storeError option \<times> Store" where
  "adapter_put k b s =
     (case adapterCall s of
        (True, s1) \<Rightarrow> (Some TransientIO, s1)
      | (False, s1) \<Rightarrow> (None, s1\<lparr>remote := (remote s1)(k \<mapsto> b)\<rparr>))"

text \<open>Modelled from the spec: \<open>get(key) -> bytes | error\<close>, of a whole block.\<close>

definition adapter_get :: "blockKey \<Rightarrow> Store \<Rightarrow> (storeError + byte list) \<times> Store" where
  "adapter_get k s =
     (case adapterCall s of
        (True, s1) \<Rightarrow> (Inl TransientIO, s1)
      | (False, s1) \<Rightarrow>
          (case remote s1 k of None \<Rightarrow> (Inl NotFound, s1) | Some b \<Rightarrow> (Inr b, s1)))"

text \<open>Modelled from the spec: \<open>delete(key) -> error\<close>; deleting a key that does not
  exist is reported as not found.\<close>

definition adapter_delete :: "blockKey \<Rightarrow> Store \<Rightarrow> storeError option \<times> Store" where
  "adapter_delete k s =
     (case adapterCall s of
        (True, s1) \<Rightarrow> (Some TransientIO, s1)
      | (False, s1) \<Rightarrow>
          (case remote s1 k of
             None \<Rightarrow> (Some NotFound, s1)
           | Some b \<Rightarrow> (None, s1\<lparr>remote := (remote s1)(k := None)\<rparr>)))"

subsection \<open>The local cache manager\<close>

text \<open>Modelled from the spec: \<open>stage(blockID, bytes)\<close> writes the bytes locally,
  marked staging.\<close>

definition stage :: "blockKey \<Rightarrow> byte list \<Rightarrow> Store \<Rightarrow> Store" where
  "stage k b s = s\<lparr>cache := (cache s)(k \<mapsto> (Staging, b))\<rparr>"

text \<open>Modelled from the spec: \<open>confirmDurable(blockID)\<close> turns staging into clean.\<close>

definition confirmDurable :: "blockKey \<Rightarrow> Store \<Rightarrow> Store" where
  "confirmDurable k s =
     (case cache s k of
        Some (Staging, b) \<Rightarrow> s\<lparr>cache := (cache s)(k \<mapsto> (Clean, b))\<rparr>
      | _ \<Rightarrow> s)"

text \<open>Modelled from the spec: \<open>lookup(blockID) -> bytes | miss\<close>.\<close>

definition lookup :: "blockKey \<Rightarrow> Store \<Rightarrow> byte list option" where
  "lookup k s = (case cache s k of None \<Rightarrow> None | Some (st, b) \<Rightarrow> Some b)"

text \<open>Modelled from the spec: eviction removes clean entries and never touches a
  staging entry.  \<open>evictIfNeeded\<close> goes through the victims its policy selected.\<close>

definition evict :: "blockKey \<Rightarrow> Store \<Rightarrow> Store" where
  "evict k s =
     (case cache s k of
        Some (Clean, b) \<Rightarrow> s\<lparr>cache := (cache s)(k := None)\<rparr>
      | _ \<Rightarrow> s)"

text \<open>Modelled from the spec: \<open>evictIfNeeded\<close>, over the victims selected.\<close>

fun evictIfNeeded :: "blockKey list \<Rightarrow> Store \<Rightarrow> Store" where
  "evictIfNeeded [] s = s"
| "evictIfNeeded (k # ks) s = evictIfNeeded ks (evict k s)"

subsection \<open>The upload pipeline\<close>

text \<open>Modelled from the spec: a transient failure is retried, up to the given number of
  attempts in total.\<close>

fun putWithRetry :: "nat \<Rightarrow> blockKey \<Rightarrow> byte list \<Rightarrow> Store \<Rightarrow> storeError option \<times> Store" where
  "putWithRetry 0 k b s = (Some RetriesExhausted, s)"
| "putWithRetry (Suc n) k b s =
     (case adapter_put k b s of
        (None, s1) \<Rightarrow> (None, s1)
      | (Some e, s1) \<Rightarrow> putWithRetry n k b s1)"

text \<open>Modelled from the spec: the upload of one staged block; on success the block is
  confirmed durable and leaves the queue, on terminal failure it stays staged.\<close>

definition uploadBlock :: "StoreConf \<Rightarrow> blockKey \<Rightarrow> Store \<Rightarrow> storeError option \<times> Store" where
  "uploadBlock cfg k s =
     (case cache s k of
        Some (Staging, b) \<Rightarrow>
          (case putWithRetry (sc_MaxRetries cfg) k b s of
             (None, s1) \<Rightarrow> (None, confirmDurable k (s1\<lparr>pending := removeAll k (pending s1)\<rparr>))
           | (Some e, s1) \<Rightarrow> (Some e, s1))
      | _ \<Rightarrow> (None, s\<lparr>pending := removeAll k (pending s)\<rparr>))"

text \<open>Modelled from the spec: the upload of several blocks returns the first
  unrecoverable error.\<close>

fun uploadAll :: "StoreConf \<Rightarrow> blockKey list \<Rightarrow> Store \<Rightarrow> storeError option \<times> Store" where
  "uploadAll cfg [] s = (None, s)"
| "uploadAll cfg (k # ks) s =
     (case uploadBlock cfg k s of
        (e, s1) \<Rightarrow>
          (case uploadAll cfg ks s1 of
             (e', s2) \<Rightarrow> ((case e of None \<Rightarrow> e' | Some x \<Rightarrow> Some x), s2)))"

text \<open>Modelled from the spec: the delayed upload of write-back mode, and the drain on
  close: every staged block waiting is uploaded.\<close>

definition uploadPending :: "StoreConf \<Rightarrow> Store \<Rightarrow> storeError option \<times> Store" where
  "uploadPending cfg s = uploadAll cfg (pending s) s"

subsection \<open>The download pipeline\<close>

text \<open>Modelled from the spec: the same retry policy for reads; a missing object is a
  permanent failure and is not retried.\<close>

fun getWithRetry :: "nat \<Rightarrow> blockKey \<Rightarrow> Store \<Rightarrow> (storeError + byte list) \<times> Store" where
  "getWithRetry 0 k s = (Inl RetriesExhausted, s)"
| "getWithRetry (Suc n) k s =
     (case adapter_get k s of
        (Inr b, s1) \<Rightarrow> (Inr b, s1)
      | (Inl TransientIO, s1) \<Rightarrow> getWithRetry n k s1
      | (Inl e, s1) \<Rightarrow> (Inl e, s1))"

text \<open>Modelled from the spec: a block is served from the cache on a hit; on a miss it
  is downloaded and, if the admission policy allows, put in the cache as a clean
  entry.\<close>

definition fetchBlock ::
    "StoreConf \<Rightarrow> bool \<Rightarrow> blockKey \<Rightarrow> Store \<Rightarrow> (storeError + byte list) \<times> Store" where
  "fetchBlock cfg admit k s =
     (case lookup k s of
        Some b \<Rightarrow> (Inr b, s)
      | None \<Rightarrow>
          (case getWithRetry (sc_MaxRetries cfg) k s of
             (Inr b, s1) \<Rightarrow>
               (Inr b, if admit then s1\<lparr>cache := (cache s1)(k \<mapsto> (Clean, b))\<rparr> else s1)
           | (Inl e, s1) \<Rightarrow> (Inl e, s1)))"

text \<open>Modelled from the spec: the blocks of a read are fetched one after the other;
  the first failure ends the read.\<close>

fun fetchAll ::
    "StoreConf \<Rightarrow> (blockKey \<Rightarrow> bool) \<Rightarrow> blockKey list \<Rightarrow> Store
      \<Rightarrow> (storeError + (blockKey \<times> byte list) list) \<times> Store" where
  "fetchAll cfg admit [] s = (Inr [], s)"
| "fetchAll cfg admit (k # ks) s =
     (case fetchBlock cfg (admit k) k s of
        (Inl e, s1) \<Rightarrow> (Inl e, s1)
      | (Inr b, s1) \<Rightarrow>
          (case fetchAll cfg admit ks s1 of
             (Inl e, s2) \<Rightarrow> (Inl e, s2)
           | (Inr bs, s2) \<Rightarrow> (Inr ((k, b) # bs), s2)))"

subsection \<open>The chunk store\<close>

text \<open>Modelled from the spec: the store's \<open>write(chunkID, offset, bytes)\<close> appends to the open
  slice buffer of the chunk; the bytes must not be empty.  (\<open>write\<close> is a keyword of the
  proof language, hence the longer name.)\<close>

definition chunk_write :: "uint64 \<Rightarrow> nat \<Rightarrow> byte list \<Rightarrow> Store \<Rightarrow> storeError option \<times> Store" where
  "chunk_write c off bytes s =
     (if bytes = [] then (Some InvalidArgument, s)
      else (None, s\<lparr>buffer := (buffer s)(c := buffer s c @ [(off, bytes)])\<rparr>))"

text \<open>Modelled from the spec: a slice is cut into blocks of the fixed size; the last
  one may be shorter.\<close>

function blocksOf :: "nat \<Rightarrow> byte list \<Rightarrow> byte list list" where
  "blocksOf n xs =
     (if n = 0 \<or> xs = [] then [] else take n xs # blocksOf n (drop n xs))"
  by pat_completeness auto
termination
  by (relation "measure (\<lambda>(n, xs). length xs)") auto

declare blocksOf.simps [simp del]

text \<open>Modelled from the spec: the blocks of a new slice get the next block indices of
  the chunk, so no id is used twice.\<close>

fun newKeys :: "uint64 \<Rightarrow> nat \<Rightarrow> byte list list \<Rightarrow> blockKey list" where
  "newKeys c i [] = []"
| "newKeys c i (b # bs) = (c, i, length b) # newKeys c (Suc i) bs"

text \<open>Modelled from the spec: every block of a sealed slice is staged.\<close>

fun stageAll :: "(blockKey \<times> byte list) list \<Rightarrow> Store \<Rightarrow> Store" where
  "stageAll [] s = s"
| "stageAll ((k, b) # kbs) s = stageAll kbs (stage k b s)"

text \<open>Modelled from the spec: sealing one buffered write: its blocks are staged in the
  cache and queued for upload, and the slice is recorded as the newest of the chunk.\<close>

definition sealSlice :: "StoreConf \<Rightarrow> uint64 \<Rightarrow> nat \<times> byte list \<Rightarrow> Store \<Rightarrow> Store" where
  "sealSlice cfg c w s =
     (let bs = blocksOf (sc_BlockSize cfg) (snd w);
          keys = newKeys c (nextIndex s c) bs;
          s1 = stageAll (zip keys bs) s
      in s1\<lparr>sealed := (sealed s1)
                 (c := \<lparr>sl_off = fst w, sl_len = length (snd w), sl_keys = keys\<rparr> # sealed s1 c),
             nextIndex := (nextIndex s1)(c := nextIndex s1 c + length bs),
             pending := pending s1 @ keys\<rparr>)"

text \<open>Modelled from the spec: the buffered writes are sealed in submission order.\<close>

fun sealAll :: "StoreConf \<Rightarrow> uint64 \<Rightarrow> (nat \<times> byte list) list \<Rightarrow> Store \<Rightarrow> Store" where
  "sealAll cfg c [] s = s"
| "sealAll cfg c (w # ws) s = sealAll cfg c ws (sealSlice cfg c w s)"

text \<open>
  Modelled from the spec: the store's \<open>flush(chunkID)\<close> seals the buffered writes of the chunk in
  submission order.  In synchronous mode it uploads the chunk's staged blocks and
  returns the first unrecoverable error; in write-back mode it returns at once and
  leaves the upload to \<open>uploadPending\<close>.
\<close>

definition flush :: "StoreConf \<Rightarrow> uint64 \<Rightarrow> Store \<Rightarrow> storeError option \<times> Store" where
  "flush cfg c s =
     (let s1 = sealAll cfg c (buffer s c) (s\<lparr>buffer := (buffer s)(c := [])\<rparr>)
      in if sc_Writeback cfg then (None, s1)
         else uploadAll cfg (filter (\<lambda>k. fst k = c) (pending s1)) s1)"

text \<open>Modelled from the spec: a position of the chunk resolves to the newest sealed
  slice that covers it, and there to a block and an offset in the block.\<close>

fun resolve :: "nat \<Rightarrow> Slice list \<Rightarrow> nat \<Rightarrow> (blockKey \<times> nat) option" where
  "resolve n [] p = None"
| "resolve n (sl # sls) p =
     (if sl_off sl \<le> p \<and> p < sl_off sl + sl_len sl then
        (if (p - sl_off sl) div n < length (sl_keys sl)
         then Some (sl_keys sl ! ((p - sl_off sl) div n), (p - sl_off sl) mod n)
         else None)
      else resolve n sls p)"

text \<open>Modelled from the spec: the bytes of the resolved positions, out of the fetched
  blocks; a block shorter than its slice says is a corruption.\<close>

fun assemble ::
    "(blockKey \<times> byte list) list \<Rightarrow> (blockKey \<times> nat) list \<Rightarrow> storeError + byte list" where
  "assemble blocks [] = Inr []"
| "assemble blocks ((k, i) # ls) =
     (case map_of blocks k of
        None \<Rightarrow> Inl Corruption
      | Some b \<Rightarrow>
          (if i < length b then
             (case assemble blocks ls of Inl e \<Rightarrow> Inl e | Inr bytes \<Rightarrow> Inr (b ! i # bytes))
           else Inl Corruption))"

text \<open>
  Modelled from the spec: the store's \<open>read(chunkID, offset, length)\<close> resolves the range to blocks,
  fetches each block once (cache first) and returns the bytes once all blocks are
  there.  With \<open>CacheFullBlock\<close> off, a downloaded block is admitted to the cache only
  if the call reads a part of it.
\<close>

definition read ::
    "StoreConf \<Rightarrow> uint64 \<Rightarrow> nat \<Rightarrow> nat \<Rightarrow> Store \<Rightarrow> (storeError + byte list) \<times> Store" where
  "read cfg c off len s =
     (let locs = map (resolve (sc_BlockSize cfg) (sealed s c)) [off ..< off + len]
      in if None \<in> set locs then (Inl OutOfRange, s)
         else
           (let ls = map the locs;
                keys = remdups (map fst ls);
                admit = (\<lambda>k. sc_CacheFullBlock cfg
                               \<or> length (filter (\<lambda>l. fst l = k) ls) < snd (snd k))
            in case fetchAll cfg admit keys s of
                 (Inl e, s1) \<Rightarrow> (Inl e, s1)
               | (Inr blocks, s1) \<Rightarrow> (assemble blocks ls, s1)))"

text \<open>
  Modelled from the spec: the store's \<open>remove(chunkID, blockSize)\<close> (the \<open>Remove\<close> that
  \<open>registerMetaMsg\<close> calls) deletes the addressed blocks from the cache and from the remote
  store; the adapter's not-found is treated as
  success, any other error is returned to the caller.  The spec derives keys from (chunk
  id, block index, size) and does not say which block indices a delete message
  addresses: that enumeration is the parameter \<open>addressed\<close>.
\<close>

fun removeKeys :: "blockKey list \<Rightarrow> Store \<Rightarrow> storeError option \<times> Store" where
  "removeKeys [] s = (None, s)"
| "removeKeys (k # ks) s =
     (case adapter_delete k
             (s\<lparr>cache := (cache s)(k := None), pending := removeAll k (pending s)\<rparr>) of
        (None, s1) \<Rightarrow> removeKeys ks s1
      | (Some NotFound, s1) \<Rightarrow> removeKeys ks s1
      | (Some e, s1) \<Rightarrow> (Some e, s1))"



subsection \<open>Sequences of operations and what was written last\<close>

text \<open>The calls a client and the store's background tasks make, one after the other.\<close>

datatype storeOp =
    Write uint64 nat "byte list"
  | Flush uint64
  | Read uint64 nat nat
  | Evict "blockKey list"
  | UploadPending

fun step :: "StoreConf \<Rightarrow> storeOp \<Rightarrow> Store \<Rightarrow> Store" where
  "step cfg (Write c off bytes) s = snd (chunk_write c off bytes s)"
| "step cfg (Flush c) s = snd (flush cfg c s)"
| "step cfg (Read c off len) s = snd (read cfg c off len s)"
| "step cfg (Evict ks) s = evictIfNeeded ks s"
| "step cfg UploadPending s = snd (uploadPending cfg s)"

fun run :: "StoreConf \<Rightarrow> storeOp list \<Rightarrow> Store \<Rightarrow> Store" where
  "run cfg [] s = s"
| "run cfg (x # xs) s = run cfg xs (step cfg x s)"






subsection \<open>What the store holds\<close>







text \<open>A block that is neither in the cache nor in the remote store.\<close>

definition absent :: "Store \<Rightarrow> blockKey \<Rightarrow> bool" where
  "absent s k = (cache s k = None \<and> remote s k = None)"

subsection \<open>When a read can fail\<close>




section \<open>Example stores\<close>

text \<open>Blocks of four bytes, synchronous upload, three attempts.\<close>

definition example_conf :: StoreConf where
  "example_conf =
     \<lparr>sc_BlockSize = 4, sc_Writeback = False, sc_MaxRetries = 3, sc_CacheFullBlock = True\<rparr>"


section \<open>Lemmas about the command layer\<close>

subsection \<open>The two loops of \<open>reorderOptions\<close>\<close>

lemma globalLoop_split:
  "globalLoop gf xs n oth = Inr (n', oth') \<Longrightarrow>
     \<exists>a b. n' = n @ a \<and> oth' = oth @ b \<and> mset a + mset b = mset xs
        \<and> subseq a xs \<and> subseq b xs \<and> list_all (\<lambda>x. \<not> fst (isFlag gf x)) b
        \<and> flagRun gf a"
proof (induction gf xs n oth rule: globalLoop.induct)
  case (1 gflags newArgs others)
  then show ?case by simp
next
  case (2 gflags option rest newArgs others)
  show ?case
  proof (cases "fst (isFlag gflags option)")
    case isf: True
    show ?thesis
    proof (cases "snd (isFlag gflags option)")
      case hv: True
      show ?thesis
      proof (cases rest)
        case Nil
        with 2(4) isf hv show ?thesis by simp
      next
        case (Cons v rest')
        with 2(4) isf hv
        have "globalLoop gflags rest' (newArgs @ [option, v]) others = Inr (n', oth')"
          by simp
        from 2(1)[OF isf hv Cons this] obtain a b where
          ab: "n' = (newArgs @ [option, v]) @ a" "oth' = others @ b"
              "mset a + mset b = mset rest'" "subseq a rest'" "subseq b rest'"
              "list_all (\<lambda>x. \<not> fst (isFlag gflags x)) b" "flagRun gflags a"
          by blast
        show ?thesis
          apply (rule exI[of _ "option # v # a"], rule exI[of _ b])
          using ab Cons isf hv by (simp add: list_emb_Cons)
      qed
    next
      case nv: False
      with 2(4) isf
      have "globalLoop gflags rest (newArgs @ [option]) others = Inr (n', oth')"
        by simp
      from 2(2)[OF isf nv this] obtain a b where
        ab: "n' = (newArgs @ [option]) @ a" "oth' = others @ b"
            "mset a + mset b = mset rest" "subseq a rest" "subseq b rest"
            "list_all (\<lambda>x. \<not> fst (isFlag gflags x)) b" "flagRun gflags a"
        by blast
      show ?thesis
        apply (rule exI[of _ "option # a"], rule exI[of _ b])
        using ab isf nv by (simp add: list_emb_Cons)
    qed
  next
    case nf: False
    with 2(4) have "globalLoop gflags rest newArgs (others @ [option]) = Inr (n', oth')"
      by simp
    from 2(3)[OF nf this] obtain a b where
      ab: "n' = newArgs @ a" "oth' = (others @ [option]) @ b"
          "mset a + mset b = mset rest" "subseq a rest" "subseq b rest"
          "list_all (\<lambda>x. \<not> fst (isFlag gflags x)) b" "flagRun gflags a"
      by blast
    show ?thesis
      apply (rule exI[of _ a], rule exI[of _ "option # b"])
      using ab nf by (simp add: list_emb_Cons)
  qed
qed

lemma commandLoop_split:
  "commandLoop cf args xs n oth = Inr (n', oth') \<Longrightarrow>
     \<exists>a b. n' = n @ a \<and> oth' = oth @ b \<and> mset a + mset b = mset xs
        \<and> subseq a xs \<and> subseq b xs \<and> list_all (\<lambda>x. \<not> fst (isFlag cf x)) b
        \<and> flagRun cf a"
proof (induction cf args xs n oth rule: commandLoop.induct)
  case (1 cflags args newArgs others)
  then show ?case by simp
next
  case (2 cflags args option rest newArgs others)
  show ?case
  proof (cases "fst (isFlag cflags option)")
    case isf: True
    show ?thesis
    proof (cases "snd (isFlag cflags option)")
      case hv: True
      show ?thesis
      proof (cases rest)
        case Nil
        with 2(4) isf hv show ?thesis by simp
      next
        case (Cons v rest')
        with 2(4) isf hv
        have "commandLoop cflags args rest' (newArgs @ [option, v]) others = Inr (n', oth')"
          by simp
        from 2(1)[OF isf hv Cons this] obtain a b where
          ab: "n' = (newArgs @ [option, v]) @ a" "oth' = others @ b"
              "mset a + mset b = mset rest'" "subseq a rest'" "subseq b rest'"
              "list_all (\<lambda>x. \<not> fst (isFlag cflags x)) b" "flagRun cflags a"
          by blast
        show ?thesis
          apply (rule exI[of _ "option # v # a"], rule exI[of _ b])
          using ab Cons isf hv by (simp add: list_emb_Cons)
      qed
    next
      case nv: False
      with 2(4) isf
      have "commandLoop cflags args rest (newArgs @ [option]) others = Inr (n', oth')"
        by simp
      from 2(2)[OF isf nv this] obtain a b where
        ab: "n' = (newArgs @ [option]) @ a" "oth' = others @ b"
            "mset a + mset b = mset rest" "subseq a rest" "subseq b rest"
            "list_all (\<lambda>x. \<not> fst (isFlag cflags x)) b" "flagRun cflags a"
        by blast
      show ?thesis
        apply (rule exI[of _ "option # a"], rule exI[of _ b])
        using ab isf nv by (simp add: list_emb_Cons)
    qed
  next
    case nf: False
    show ?thesis
    proof (cases "HasPrefix option ''-''
                    \<and> \<not> stringContains args ''--generate-bash-completion''")
      case True
      with 2(4) nf show ?thesis by simp
    next
      case ok: False
      with 2(4) nf
      have "commandLoop cflags args rest newArgs (others @ [option]) = Inr (n', oth')"
        by simp
      from 2(3)[OF nf ok this] obtain a b where
        ab: "n' = newArgs @ a" "oth' = (others @ [option]) @ b"
            "mset a + mset b = mset rest" "subseq a rest" "subseq b rest"
            "list_all (\<lambda>x. \<not> fst (isFlag cflags x)) b" "flagRun cflags a"
        by blast
      show ?thesis
        apply (rule exI[of _ a], rule exI[of _ "option # b"])
        using ab nf by (simp add: list_emb_Cons)
    qed
  qed
qed

subsection \<open>Contexts\<close>

lemma c_Bool_default: "c_Bool (defaultContext flags as) name = False"
proof -
  have "\<And>v. map_of (flagBindings flags) name = Some v \<Longrightarrow> v \<noteq> BoolV True"
  proof (induction flags)
    case Nil
    then show ?case by simp
  next
    case (Cons f fs)
    show ?case
    proof (cases "map_of (map (\<lambda>n. (n, flagDefault f)) (Names f)) name")
      case None
      with Cons show ?thesis by (simp add: map_add_def)
    next
      case (Some w)
      then have "w = flagDefault f" by (auto dest!: map_of_SomeD)
      moreover from Some Cons.prems have "v = w" by (simp add: map_add_def)
      ultimately show ?thesis by (cases f) auto
    qed
  qed
  then show ?thesis
    by (auto simp: c_Bool_def defaultContext_def split: option.splits flagValue.splits)
qed

lemma c_Bool_withFlag: "c_Bool (withFlag name (BoolV b) c) name = b"
  by (simp add: c_Bool_def withFlag_def)

subsection \<open>64-bit arithmetic without overflow\<close>

lemma sint_mult_fits:
  "fits64 (sint (a :: 64 word) * sint (b :: 64 word)) \<Longrightarrow> sint (a * b) = sint a * sint b"
  by (simp add: fits64_def sint_word_mult signed_take_bit_int_eq_self)

lemma sint_push_bit_fits:
  "fits64 (sint (a :: 64 word) * 2 ^ 20) \<Longrightarrow> sint (push_bit 20 a) = sint a * 2 ^ 20"
proof -
  assume f: "fits64 (sint a * 2 ^ 20)"
  have "push_bit 20 a = a * 1048576" by (simp add: push_bit_eq_mult)
  moreover have "sint (1048576 :: 64 word) = 1048576" by simp
  ultimately show ?thesis using sint_mult_fits[of a 1048576] f by simp
qed

lemma go_quot_Mbps:
  assumes "fits64 (sint (a :: 64 word) * 1000000)"
  shows "sint (go_quot (a * 1000000) 8) = sint a * 1000000 div 8"
proof -
  have s1: "sint (1000000 :: 64 word) = 1000000" by simp
  have s8: "sint (8 :: 64 word) = 8" by simp
  have m: "sint (a * 1000000) = sint a * 1000000"
    using sint_mult_fits[of a 1000000] assms s1 by simp
  have q: "(sint a * 1000000) sdiv 8 = sint a * 125000"
    by (simp add: signed_divide_int_def sgn_mult abs_mult) (simp add: sgn_if)
  have d: "sint a * 1000000 div 8 = sint a * 125000" by simp
  have f: "fits64 (sint a * 125000)" using assms by (auto simp: fits64_def)
  have s125: "sint (125000 :: 64 word) = 125000" by simp
  have w: "(word_of_int (sint a * 125000) :: 64 word) = a * 125000" by simp
  have "sint (a * 125000) = sint a * 125000"
    using sint_mult_fits[of a 125000] f s125 by simp
  then show ?thesis by (simp only: go_quot_def m s8 q w d)
qed

lemma seconds_fits:
  "fits64 (sint (a :: 64 word) * 1000000000) \<Longrightarrow> sint (time_Second * a) = sint a * 1000000000"
proof -
  assume f: "fits64 (sint a * 1000000000)"
  have "sint (1000000000 :: 64 word) = 1000000000" by simp
  then show ?thesis using sint_mult_fits[of 1000000000 a] f
    by (simp add: time_Second_def mult.commute)
qed

lemma sint_ucast_32_64: "sint (ucast (b :: 32 word) :: 64 word) = uint b"
proof -
  have u: "(ucast b :: 64 word) = word_of_int (uint b)" by simp
  have lo: "0 \<le> uint b" by simp
  have "uint b < 2 ^ 32" using uint_bounded[of b] by simp
  then have hi: "uint b < 2 ^ 63" by simp
  have "- (2 ^ 63) \<le> (0 :: int)" by simp
  then have lo': "- (2 ^ 63) \<le> uint b" using lo by (rule order_trans)
  have "signed_take_bit 63 (uint b) = uint b"
    using lo' hi by (rule signed_take_bit_int_eq_self)
  then show ?thesis unfolding u by (simp only: sint_sbintrunc') simp
qed

subsection \<open>The configuration builders, field by field\<close>

lemma getChunkConf_fields:
  "BlockSize (getChunkConf env c format) = format_BlockSize format * 1024"
  "Compress (getChunkConf env c format) = format_Compression format"
  "GetTimeout (getChunkConf env c format) = time_Second * c_Int c ''get-timeout''"
  "PutTimeout (getChunkConf env c format) = time_Second * c_Int c ''put-timeout''"
  "MaxUpload (getChunkConf env c format) = c_Int c ''max-uploads''"
  "Writeback (getChunkConf env c format) = c_Bool c ''writeback''"
  "UploadDelay (getChunkConf env c format) = 0"
  "Prefetch (getChunkConf env c format) = c_Int c ''prefetch''"
  "BufferSize (getChunkConf env c format) = push_bit 20 (c_Int c ''buffer-size'')"
  "UploadLimit (getChunkConf env c format) = go_quot (c_Int64 c ''upload-limit'' * 1000000) 8"
  "DownloadLimit (getChunkConf env c format) = go_quot (c_Int64 c ''download-limit'' * 1000000) 8"
  "CacheSize (getChunkConf env c format) = c_Int c ''cache-size''"
  "FreeSpace (getChunkConf env c format)
     = float32 env (c_Float64 (float64_zero env) c ''free-space-ratio'')"
  "CacheMode (getChunkConf env c format) = 384"
  "CacheFullBlock (getChunkConf env c format) = (\<not> c_Bool c ''cache-partial-only'')"
  "AutoCreate (getChunkConf env c format) = True"
  by (simp_all add: getChunkConf_def Let_def)

lemma getChunkConf_CacheDir_eq:
  "CacheDir (getChunkConf env c format) =
     (if c_String c ''cache-dir'' = ''memory'' then ''memory''
      else strings_Join
             (map (\<lambda>d. filepath_Join env d (format_UUID format))
                  (SplitDir env (c_String c ''cache-dir'')))
             [PathListSeparator env])"
  by (simp add: getChunkConf_def Let_def)

lemma mountConfigs_Inr:
  assumes "mountConfigs env c loaded = Inr r"
  shows "getFormat c loaded = Inr (mc_format r)"
    and "mc_chunkConf r
           = (getChunkConf env c (mc_format r))\<lparr>UploadDelay := c_Duration c ''upload-delay''\<rparr>"
    and "MaxDeletes (mc_metaConf r) = c_Int c ''max-deletes''"
    and "mc_warnings r = (if \<not> c_Bool c ''writeback'' \<and> c_IsSet c ''upload-delay''
                        then [''delayed upload only work in writeback mode''] else [])"
  using assms
  by (auto simp: mountConfigs_def Let_def getMetaConf_def split: if_splits sum.splits)

subsection \<open>Splitting a joined list\<close>

lemma strings_Split_no_sep: "sep \<notin> set d \<Longrightarrow> strings_Split d sep = [d]"
  by (induction d) auto

lemma strings_Split_append:
  "sep \<notin> set d \<Longrightarrow> strings_Split (d @ sep # r) sep = d # strings_Split r sep"
  by (induction d) auto

lemma strings_Split_Join:
  "ds \<noteq> [] \<Longrightarrow> list_all (\<lambda>d. sep \<notin> set d) ds \<Longrightarrow>
     strings_Split (strings_Join ds [sep]) sep = ds"
  by (induction ds "[sep]" rule: strings_Join.induct)
     (auto simp: strings_Split_no_sep strings_Split_append)

section \<open>Lemmas about the chunk store\<close>

subsection \<open>Blocks, keys and staging\<close>



lemma newKeys_nth: "j < length bs \<Longrightarrow> newKeys c i bs ! j = (c, i + j, length (bs ! j))"
proof (induction bs arbitrary: i j)
  case Nil
  then show ?case by simp
next
  case (Cons b bs)
  then show ?case by (cases j) auto
qed








subsection \<open>Sealing a slice\<close>












subsection \<open>Uploads and evictions leave the view of the store unchanged\<close>









lemma adapterCall_cases:
  "adapterCall s = (f, s1) \<Longrightarrow>
     buffer s1 = buffer s \<and> sealed s1 = sealed s \<and> nextIndex s1 = nextIndex s
     \<and> cache s1 = cache s \<and> pending s1 = pending s \<and> remote s1 = remote s
     \<and> set (faults s1) \<subseteq> set (faults s) \<and> (f \<longrightarrow> True \<in> set (faults s))"
  by (cases "faults s") (auto simp: adapterCall_def)







subsection \<open>Fetching and reading\<close>







subsection \<open>One operation, and a sequence of operations\<close>












text \<open>The second scenario of the specification: of two overlapping writes, the later one
  wins.\<close>

lemma later_write_wins:
  "fst (read example_conf 2 0 4 (run example_conf
          [Write 2 0 [65, 65, 65, 65], Write 2 1 [66, 66], Flush 2] (newStore [])))
     = Inr [65, 66, 66, 65]"
  by code_simp

subsection \<open>Removing blocks\<close>

lemma adapter_delete_cases:
  "adapter_delete k s = (e, s1) \<Longrightarrow>
     buffer s1 = buffer s \<and> sealed s1 = sealed s \<and> nextIndex s1 = nextIndex s
     \<and> cache s1 = cache s \<and> pending s1 = pending s
     \<and> set (faults s1) \<subseteq> set (faults s)
     \<and> ((e = Some TransientIO \<and> True \<in> set (faults s) \<and> remote s1 = remote s)
        \<or> (e = Some NotFound \<and> remote s k = None \<and> remote s1 = remote s)
        \<or> (e = None \<and> remote s1 = (remote s)(k := None)))"
proof -
  assume a: "adapter_delete k s = (e, s1)"
  obtain f s0 where ac: "adapterCall s = (f, s0)" by (cases "adapterCall s")
  note c = adapterCall_cases[OF ac]
  show ?thesis
  proof (cases f)
    case True
    with a ac have "e = Some TransientIO" "s1 = s0" by (simp_all add: adapter_delete_def)
    with c True show ?thesis by simp
  next
    case False
    show ?thesis
    proof (cases "remote s0 k")
      case None
      with a ac False have "e = Some NotFound" "s1 = s0" by (simp_all add: adapter_delete_def)
      with c None show ?thesis by simp
    next
      case (Some b)
      with a ac False have "e = None" "s1 = s0\<lparr>remote := (remote s0)(k := None)\<rparr>"
        by (simp_all add: adapter_delete_def)
      with c show ?thesis by simp
    qed
  qed
qed

lemma removeKeys_Cons:
  assumes "removeKeys (k # ks) s = (e, s1)"
  shows "\<exists>s2. cache s2 = (cache s)(k := None) \<and> set (faults s2) \<subseteq> set (faults s)
     \<and> ((True \<in> set (faults s) \<and> remote s2 = remote s \<and> e = Some TransientIO \<and> s1 = s2)
        \<or> (remote s2 = (remote s)(k := None) \<and> removeKeys ks s2 = (e, s1)))"
proof -
  let ?s0 = "s\<lparr>cache := (cache s)(k := None), pending := removeAll k (pending s)\<rparr>"
  obtain e0 s2 where d: "adapter_delete k ?s0 = (e0, s2)" by (cases "adapter_delete k ?s0")
  from adapter_delete_cases[OF d] have
    fr: "cache s2 = (cache s)(k := None)" "set (faults s2) \<subseteq> set (faults s)" and
    cs: "(e0 = Some TransientIO \<and> True \<in> set (faults s) \<and> remote s2 = remote s)
        \<or> (e0 = Some NotFound \<and> remote s k = None \<and> remote s2 = remote s)
        \<or> (e0 = None \<and> remote s2 = (remote s)(k := None))"
    by simp_all
  from cs consider
      (transient) "e0 = Some TransientIO" "True \<in> set (faults s)" "remote s2 = remote s"
    | (absent) "e0 = Some NotFound" "remote s k = None" "remote s2 = remote s"
    | (deleted) "e0 = None" "remote s2 = (remote s)(k := None)"
    by (elim disjE conjE) simp_all
  then show ?thesis
  proof cases
    case transient
    with assms d have "e = Some TransientIO" "s1 = s2" by simp_all
    with transient fr show ?thesis by blast
  next
    case absent
    with assms d have r: "removeKeys ks s2 = (e, s1)" by simp
    from absent have "remote s2 = (remote s)(k := None)" by (simp add: fun_upd_idem)
    with r fr show ?thesis by blast
  next
    case deleted
    with assms d have r: "removeKeys ks s2 = (e, s1)" by simp
    with deleted fr show ?thesis by blast
  qed
qed

lemma removeKeys_faults:
  "removeKeys ks s = (e, s1) \<Longrightarrow>
     set (faults s1) \<subseteq> set (faults s)
     \<and> (e = None \<or> (e = Some TransientIO \<and> True \<in> set (faults s)))"
proof (induction ks arbitrary: s)
  case Nil
  then show ?case by simp
next
  case (Cons k ks)
  from removeKeys_Cons[OF Cons.prems] obtain s2 where
    f: "set (faults s2) \<subseteq> set (faults s)" and
    c: "(True \<in> set (faults s) \<and> remote s2 = remote s \<and> e = Some TransientIO \<and> s1 = s2)
        \<or> (remote s2 = (remote s)(k := None) \<and> removeKeys ks s2 = (e, s1))"
    by blast
  from c show ?case
  proof
    assume "True \<in> set (faults s) \<and> remote s2 = remote s \<and> e = Some TransientIO \<and> s1 = s2"
    with f show ?thesis by simp
  next
    assume "remote s2 = (remote s)(k := None) \<and> removeKeys ks s2 = (e, s1)"
    with Cons.IH[of s2] f show ?thesis by blast
  qed
qed





subsection \<open>Exactly when a read and a remove fail\<close>













section \<open>The claims about the command layer\<close>

text \<open>
  Claim C1.  A \<open>DeleteChunk\<close> message with arguments \<open>(chunkID uint64, blockSize uint32)\<close>
  reaches the handler that \<open>registerMetaMsg\<close> registered for it; the handler calls the
  store's \<open>Remove\<close> with that chunk id and that block size (the conversion to \<open>int\<close> keeps
  the value) and returns what \<open>Remove\<close> returns.  A \<open>CompactChunk\<close> message with arguments
  \<open>(slices, chunkID)\<close> reaches the handler that calls \<open>vfs.Compact\<close> with the chunk
  configuration, the store, the slices and the chunk id, and returns its result.  So the
  error of either operation is the error the metadata engine receives.
\<close>

theorem registerMetaMsg_dispatch:
  "registerMetaMsg vfs_Compact m store chunkConf DeleteChunk = Some (deleteChunkHandler store)
   \<and> deleteChunkHandler store [U64 chunkID, U32 blockSize]
       = Inr (Remove store chunkID (ucast blockSize))
   \<and> sint (ucast blockSize :: go_int) = uint blockSize
   \<and> registerMetaMsg vfs_Compact m store chunkConf CompactChunk
       = Some (compactChunkHandler vfs_Compact chunkConf store)
   \<and> compactChunkHandler vfs_Compact chunkConf store [Slices slices, U64 chunkID]
       = Inr (vfs_Compact chunkConf store slices chunkID)"
  by (simp add: registerMetaMsg_def OnMsg_def deleteChunkHandler_def compactChunkHandler_def
        sint_ucast_32_64)

text \<open>
  Claim C2, as amended.  When \<open>mount\<close> reaches the construction of the store, every knob
  of the configuration surface except \<open>MaxDeletes\<close> is a field of the chunk configuration,
  filled from the flag or the format field shown (\<open>UploadDelay\<close> by \<open>mount\<close> itself,
  \<open>AutoCreate\<close> with the constant \<open>true\<close>); \<open>MaxDeletes\<close> is filled from the
  \<open>max-deletes\<close> flag in the metadata configuration, not in the chunk configuration.
\<close>

theorem mountConfigs_knobs:
  assumes "mountConfigs env c loaded = Inr r"
  shows "getFormat c loaded = Inr (mc_format r)
    \<and> BlockSize (mc_chunkConf r) = format_BlockSize (mc_format r) * 1024
    \<and> Compress (mc_chunkConf r) = format_Compression (mc_format r)
    \<and> GetTimeout (mc_chunkConf r) = time_Second * c_Int c ''get-timeout''
    \<and> PutTimeout (mc_chunkConf r) = time_Second * c_Int c ''put-timeout''
    \<and> MaxUpload (mc_chunkConf r) = c_Int c ''max-uploads''
    \<and> Writeback (mc_chunkConf r) = c_Bool c ''writeback''
    \<and> UploadDelay (mc_chunkConf r) = c_Duration c ''upload-delay''
    \<and> Prefetch (mc_chunkConf r) = c_Int c ''prefetch''
    \<and> BufferSize (mc_chunkConf r) = push_bit 20 (c_Int c ''buffer-size'')
    \<and> UploadLimit (mc_chunkConf r) = go_quot (c_Int64 c ''upload-limit'' * 1000000) 8
    \<and> DownloadLimit (mc_chunkConf r) = go_quot (c_Int64 c ''download-limit'' * 1000000) 8
    \<and> CacheDir (mc_chunkConf r) =
         (if c_String c ''cache-dir'' = ''memory'' then ''memory''
          else strings_Join
                 (map (\<lambda>d. filepath_Join env d (format_UUID (mc_format r)))
                      (SplitDir env (c_String c ''cache-dir'')))
                 [PathListSeparator env])
    \<and> CacheSize (mc_chunkConf r) = c_Int c ''cache-size''
    \<and> FreeSpace (mc_chunkConf r)
         = float32 env (c_Float64 (float64_zero env) c ''free-space-ratio'')
    \<and> CacheFullBlock (mc_chunkConf r) = (\<not> c_Bool c ''cache-partial-only'')
    \<and> AutoCreate (mc_chunkConf r) = True
    \<and> MaxDeletes (mc_metaConf r) = c_Int c ''max-deletes''"
  using mountConfigs_Inr[OF assms]
  by (simp add: getChunkConf_fields getChunkConf_CacheDir_eq)

theorem mountConfigs_knobs_witness:
  "\<not> isl (mountConfigs example_env example_ctx (Inr example_format))
   \<and> MaxUpload (mc_chunkConf (projr (mountConfigs example_env example_ctx (Inr example_format))))
       = 20
   \<and> MaxDeletes (mc_metaConf (projr (mountConfigs example_env example_ctx (Inr example_format))))
       = 2"
proof -
  have h: "mountConfigs example_env example_ctx (Inr example_format)
             = Inr (projr (mountConfigs example_env example_ctx (Inr example_format)))"
    by code_simp
  have v: "c_Int example_ctx ''max-uploads'' = 20" "c_Int example_ctx ''max-deletes'' = 2"
    by code_simp+
  have i: "\<not> isl (mountConfigs example_env example_ctx (Inr example_format))"
    by (subst h) simp
  from mountConfigs_knobs[OF h] v i show ?thesis by simp
qed

text \<open>
  Claim C2 as stated fails for \<open>MaxDeletes\<close>: two mounts that differ only in
  \<open>--max-deletes\<close> (7 against the default 2) build the same chunk configuration, so that
  knob is not in it.
\<close>

theorem chunkConf_ignores_max_deletes:
  "map_sum id mc_chunkConf
     (mountConfigs example_env (withFlag ''max-deletes'' (IntV 7) example_ctx) (Inr example_format))
   = map_sum id mc_chunkConf (mountConfigs example_env example_ctx (Inr example_format))
   \<and> \<not> isl (mountConfigs example_env example_ctx (Inr example_format))
   \<and> c_Int (withFlag ''max-deletes'' (IntV 7) example_ctx) ''max-deletes'' = 7
   \<and> c_Int example_ctx ''max-deletes'' = 2"
  by code_simp

text \<open>
  Claim C5.  The claim has the value of \<open>io-retries\<close> consumed into the configuration that
  \<open>mount\<close> builds.  The flag is declared (default 30, "number of retries after network
  failure"), but neither \<open>getChunkConf\<close> nor \<open>getMetaConf\<close> nor \<open>mount\<close> reads it:
  \<open>juicefs mount --io-retries 5\<close> builds exactly the configurations of the default mount,
  and the one retry count there is, \<open>Retries\<close> of the metadata configuration, is the
  constant 10.
\<close>

theorem mount_ignores_io_retries:
  "mountConfigs example_env (withFlag ''io-retries'' (IntV 5) example_ctx) (Inr example_format)
     = mountConfigs example_env example_ctx (Inr example_format)
   \<and> \<not> isl (mountConfigs example_env example_ctx (Inr example_format))
   \<and> c_Int (withFlag ''io-retries'' (IntV 5) example_ctx) ''io-retries'' = 5
   \<and> c_Int example_ctx ''io-retries'' = 30
   \<and> Retries (mc_metaConf (projr (mountConfigs example_env
        (withFlag ''io-retries'' (IntV 5) example_ctx) (Inr example_format)))) = 10"
  by code_simp

text \<open>
  Claim C6.  For a \<open>cache-dir\<close> value other than \<open>memory\<close>, the configured \<open>CacheDir\<close> is
  the list that \<open>utils.SplitDir\<close> returns, each directory joined with the volume's UUID by
  \<open>filepath.Join\<close>, in the same order, joined with the path-list separator; splitting it
  at the separator gives back those directories, as many and in that order, provided
  none of them contains the separator.  The value \<open>memory\<close> is passed through unchanged.
\<close>

theorem getChunkConf_CacheDir:
  "CacheDir (getChunkConf env c format) =
     (if c_String c ''cache-dir'' = ''memory'' then ''memory''
      else strings_Join
             (map (\<lambda>d. filepath_Join env d (format_UUID format))
                  (SplitDir env (c_String c ''cache-dir'')))
             [PathListSeparator env])
   \<and> (c_String c ''cache-dir'' \<noteq> ''memory''
        \<and> SplitDir env (c_String c ''cache-dir'') \<noteq> []
        \<and> list_all (\<lambda>d. PathListSeparator env \<notin> set (filepath_Join env d (format_UUID format)))
             (SplitDir env (c_String c ''cache-dir''))
      \<longrightarrow> strings_Split (CacheDir (getChunkConf env c format)) (PathListSeparator env)
            = map (\<lambda>d. filepath_Join env d (format_UUID format))
                  (SplitDir env (c_String c ''cache-dir'')))"
proof (intro conjI impI)
  show "CacheDir (getChunkConf env c format) =
     (if c_String c ''cache-dir'' = ''memory'' then ''memory''
      else strings_Join
             (map (\<lambda>d. filepath_Join env d (format_UUID format))
                  (SplitDir env (c_String c ''cache-dir'')))
             [PathListSeparator env])"
    by (rule getChunkConf_CacheDir_eq)
next
  let ?ds = "map (\<lambda>d. filepath_Join env d (format_UUID format))
                  (SplitDir env (c_String c ''cache-dir''))"
  assume a: "c_String c ''cache-dir'' \<noteq> ''memory''
        \<and> SplitDir env (c_String c ''cache-dir'') \<noteq> []
        \<and> list_all (\<lambda>d. PathListSeparator env \<notin> set (filepath_Join env d (format_UUID format)))
             (SplitDir env (c_String c ''cache-dir''))"
  then have ne: "?ds \<noteq> []" and all: "list_all (\<lambda>d. PathListSeparator env \<notin> set d) ?ds"
    by (simp_all add: list_all_iff)
  from a have "CacheDir (getChunkConf env c format) = strings_Join ?ds [PathListSeparator env]"
    by (simp add: getChunkConf_CacheDir_eq)
  then show "strings_Split (CacheDir (getChunkConf env c format)) (PathListSeparator env) = ?ds"
    using strings_Split_Join[OF ne all] by simp
qed

theorem getChunkConf_CacheDir_witness:
  "CacheDir (getChunkConf example_env
       (withFlag ''cache-dir'' (StringV ''/data/a:/data/b'') example_ctx) example_format)
     = ''/data/a/0a1b2c:/data/b/0a1b2c''
   \<and> strings_Split (CacheDir (getChunkConf example_env
       (withFlag ''cache-dir'' (StringV ''/data/a:/data/b'') example_ctx) example_format)) CHR '':''
     = [''/data/a/0a1b2c'', ''/data/b/0a1b2c'']
   \<and> CacheDir (getChunkConf example_env
       (withFlag ''cache-dir'' (StringV ''memory'') example_ctx) example_format) = ''memory''"
proof -
  let ?c = "withFlag ''cache-dir'' (StringV ''/data/a:/data/b'') example_ctx"
  have s: "c_String ?c ''cache-dir'' = ''/data/a:/data/b''" by code_simp
  have d: "SplitDir example_env ''/data/a:/data/b'' = [''/data/a'', ''/data/b'']" by code_simp
  have e: "filepath_Join example_env = (\<lambda>d e. d @ ''/'' @ e)"
          "PathListSeparator example_env = CHR '':''"
          "format_UUID example_format = ''0a1b2c''"
    by (simp_all add: example_env_def example_format_def)
  have m: "c_String (withFlag ''cache-dir'' (StringV ''memory'') example_ctx) ''cache-dir''
             = ''memory''" by code_simp
  from getChunkConf_CacheDir[of example_env ?c example_format]
       getChunkConf_CacheDir[of example_env
          "withFlag ''cache-dir'' (StringV ''memory'') example_ctx" example_format]
  show ?thesis unfolding s d e m by simp
qed

text \<open>
  Claim C7.  \<open>CacheFullBlock\<close> is the negation of the \<open>cache-partial-only\<close> flag, in
  \<open>getChunkConf\<close> and still in the configuration \<open>mount\<close> hands to the store: it is true
  on a command line that does not give the flag, whatever the flag list, and false when
  the flag is given.
\<close>

theorem getChunkConf_CacheFullBlock:
  "CacheFullBlock (getChunkConf env c format) = (\<not> c_Bool c ''cache-partial-only'')
   \<and> (mountConfigs env c loaded = Inr r
        \<longrightarrow> CacheFullBlock (mc_chunkConf r) = (\<not> c_Bool c ''cache-partial-only''))
   \<and> CacheFullBlock (getChunkConf env (defaultContext flags as) format) = True
   \<and> CacheFullBlock
        (getChunkConf env (withFlag ''cache-partial-only'' (BoolV True) c) format) = False"
proof (intro conjI impI)
  assume "mountConfigs env c loaded = Inr r"
  from mountConfigs_Inr(2)[OF this]
  show "CacheFullBlock (mc_chunkConf r) = (\<not> c_Bool c ''cache-partial-only'')"
    by (simp add: getChunkConf_fields)
qed (simp_all add: getChunkConf_fields c_Bool_default c_Bool_withFlag)

theorem getChunkConf_CacheFullBlock_witness:
  "\<not> isl (mountConfigs example_env example_ctx (Inr example_format))
   \<and> CacheFullBlock (mc_chunkConf (projr (mountConfigs example_env example_ctx
         (Inr example_format)))) = True
   \<and> c_Bool example_ctx ''cache-partial-only'' = False"
proof -
  have h: "mountConfigs example_env example_ctx (Inr example_format)
             = Inr (projr (mountConfigs example_env example_ctx (Inr example_format)))"
    by code_simp
  have v: "c_Bool example_ctx ''cache-partial-only'' = False"
    by code_simp
  have i: "\<not> isl (mountConfigs example_env example_ctx (Inr example_format))"
    by (subst h) simp
  from getChunkConf_CacheFullBlock[of example_env example_ctx example_format
         "Inr example_format"
         "projr (mountConfigs example_env example_ctx (Inr example_format))"]
       h v i
  show ?thesis by simp
qed

text \<open>
  Claim C8, as amended.  Each conversion is exact whenever its product fits in 64 bits:
  \<open>BlockSize\<close> is \<open>format.BlockSize\<close> times 1024, \<open>BufferSize\<close> is \<open>buffer-size\<close> times
  \<open>2^20\<close>, \<open>UploadLimit\<close> and \<open>DownloadLimit\<close> are the flag times \<open>10^6\<close> divided by 8
  (the division is exact), \<open>GetTimeout\<close> and \<open>PutTimeout\<close> are the flag times \<open>10^9\<close>
  nanoseconds.
\<close>

theorem getChunkConf_units:
  "(fits64 (sint (format_BlockSize format) * 1024)
      \<longrightarrow> sint (BlockSize (getChunkConf env c format)) = sint (format_BlockSize format) * 1024)
   \<and> (fits64 (sint (c_Int c ''buffer-size'') * 2 ^ 20)
      \<longrightarrow> sint (BufferSize (getChunkConf env c format)) = sint (c_Int c ''buffer-size'') * 2 ^ 20)
   \<and> (fits64 (sint (c_Int64 c ''upload-limit'') * 1000000)
      \<longrightarrow> sint (UploadLimit (getChunkConf env c format))
            = sint (c_Int64 c ''upload-limit'') * 1000000 div 8)
   \<and> (fits64 (sint (c_Int64 c ''download-limit'') * 1000000)
      \<longrightarrow> sint (DownloadLimit (getChunkConf env c format))
            = sint (c_Int64 c ''download-limit'') * 1000000 div 8)
   \<and> (fits64 (sint (c_Int c ''get-timeout'') * 1000000000)
      \<longrightarrow> sint (GetTimeout (getChunkConf env c format))
            = sint (c_Int c ''get-timeout'') * 1000000000)
   \<and> (fits64 (sint (c_Int c ''put-timeout'') * 1000000000)
      \<longrightarrow> sint (PutTimeout (getChunkConf env c format))
            = sint (c_Int c ''put-timeout'') * 1000000000)"
proof -
  have k: "sint (1024 :: 64 word) = 1024" by simp
  have b: "fits64 (sint (format_BlockSize format) * 1024)
      \<longrightarrow> sint (format_BlockSize format * 1024) = sint (format_BlockSize format) * 1024"
    using sint_mult_fits[of "format_BlockSize format" 1024] k by simp
  show ?thesis
    using b by (simp add: getChunkConf_fields sint_push_bit_fits go_quot_Mbps seconds_fits)
qed

theorem getChunkConf_units_witness:
  "fits64 (sint (format_BlockSize example_format) * 1024)
   \<and> sint (BlockSize (getChunkConf example_env example_ctx example_format)) = 4096 * 1024
   \<and> fits64 (sint (c_Int example_ctx ''buffer-size'') * 2 ^ 20)
   \<and> sint (BufferSize (getChunkConf example_env example_ctx example_format)) = 300 * 2 ^ 20
   \<and> fits64 (sint (c_Int example_ctx ''get-timeout'') * 1000000000)
   \<and> sint (GetTimeout (getChunkConf example_env example_ctx example_format)) = 60 * 1000000000
   \<and> fits64 (sint (c_Int64 (withFlag ''upload-limit'' (Int64V 100) example_ctx) ''upload-limit'')
        * 1000000)
   \<and> sint (UploadLimit (getChunkConf example_env
        (withFlag ''upload-limit'' (Int64V 100) example_ctx) example_format)) = 12500000"
proof -
  have v: "format_BlockSize example_format = 4096"
          "c_Int example_ctx ''buffer-size'' = 300"
          "c_Int example_ctx ''get-timeout'' = 60"
          "c_Int64 (withFlag ''upload-limit'' (Int64V 100) example_ctx) ''upload-limit'' = 100"
    by code_simp+
  have s: "sint (4096 :: 64 word) = 4096" "sint (300 :: 64 word) = 300"
          "sint (60 :: 64 word) = 60" "sint (100 :: 64 word) = 100"
    by simp_all
  from getChunkConf_units[where format = example_format and c = example_ctx
         and env = example_env]
       getChunkConf_units[where format = example_format
         and c = "withFlag ''upload-limit'' (Int64V 100) example_ctx" and env = example_env]
  show ?thesis unfolding v s by (simp add: fits64_def)
qed

text \<open>
  Claim C8 as stated, for every input, fails where the product leaves the 64-bit range:
  with \<open>--buffer-size\<close> \<open>2^44\<close> the configured \<open>BufferSize\<close> is not \<open>2^44 * 2^20\<close> bytes
  (it wraps around to 0).
\<close>

theorem BufferSize_overflow:
  "sint (BufferSize (getChunkConf example_env
           (withFlag ''buffer-size'' (IntV (2 ^ 44)) example_ctx) example_format))
     \<noteq> sint (c_Int (withFlag ''buffer-size'' (IntV (2 ^ 44)) example_ctx) ''buffer-size'')
         * 2 ^ 20"
  by code_simp

text \<open>
  Claim C9.  In the configuration \<open>mount\<close> hands to the store, \<open>UploadDelay\<close> is the value
  of the \<open>upload-delay\<close> flag, whatever the \<open>writeback\<close> flag is; when \<open>upload-delay\<close> is
  set without \<open>writeback\<close>, a warning is logged and nothing else changes.
\<close>

theorem mount_UploadDelay:
  assumes "mountConfigs env c loaded = Inr r"
  shows "UploadDelay (mc_chunkConf r) = c_Duration c ''upload-delay''
     \<and> mc_warnings r =
         (if \<not> c_Bool c ''writeback'' \<and> c_IsSet c ''upload-delay''
          then [''delayed upload only work in writeback mode''] else [])"
  using mountConfigs_Inr[OF assms] by simp

theorem mount_UploadDelay_witness:
  "\<not> isl (mountConfigs example_env
       (withFlag ''upload-delay'' (DurationV 5000000000) example_ctx) (Inr example_format))
   \<and> c_Bool (withFlag ''upload-delay'' (DurationV 5000000000) example_ctx) ''writeback'' = False
   \<and> UploadDelay (mc_chunkConf (projr (mountConfigs example_env
       (withFlag ''upload-delay'' (DurationV 5000000000) example_ctx) (Inr example_format))))
      = 5000000000
   \<and> mc_warnings (projr (mountConfigs example_env
       (withFlag ''upload-delay'' (DurationV 5000000000) example_ctx) (Inr example_format)))
      = [''delayed upload only work in writeback mode'']"
proof -
  let ?c = "withFlag ''upload-delay'' (DurationV 5000000000) example_ctx"
  have h: "mountConfigs example_env ?c (Inr example_format)
             = Inr (projr (mountConfigs example_env ?c (Inr example_format)))"
    by code_simp
  have v: "c_Duration ?c ''upload-delay'' = 5000000000" "c_Bool ?c ''writeback'' = False"
          "c_IsSet ?c ''upload-delay'' = True"
    by code_simp+
  have i: "\<not> isl (mountConfigs example_env ?c (Inr example_format))"
    by (subst h) simp
  from mount_UploadDelay[OF h] v i show ?thesis by simp
qed

text \<open>
  Claim C10.  Whenever \<open>reorderOptions\<close> returns, its result is a permutation of the
  argument vector and starts with the program name.  After the program name come the
  recognized global flags with their values, in their original order; what the first
  loop left over contains no recognized global flag.  If nothing is left over, that is
  all; if the first leftover is not the name of a command, the leftovers follow unchanged
  and in order; otherwise the command name follows, then the recognized flags of the
  command with their values, then the rest, each in its original order.
\<close>

theorem reorderOptions_permutation:
  assumes "reorderOptions app args = Inr res"
  shows "mset res = mset args \<and> args \<noteq> [] \<and> hd res = hd args \<and>
    (\<exists>g others.
        globalLoop (appFlags app @ [VersionFlag]) (tl args) [hd args] [] = Inr (hd args # g, others)
      \<and> flagRun (appFlags app @ [VersionFlag]) g
      \<and> subseq g (tl args) \<and> subseq others (tl args)
      \<and> list_all (\<lambda>x. \<not> fst (isFlag (appFlags app @ [VersionFlag]) x)) others
      \<and> (case others of
            [] \<Rightarrow> res = hd args # g
          | name # args' \<Rightarrow>
              (case findCommand (appCommands app) name None of
                 None \<Rightarrow> res = hd args # g @ others
               | Some cmd \<Rightarrow>
                   (\<exists>cf oth. res = hd args # g @ name # cf @ oth
                      \<and> flagRun (cmdFlags cmd @ [HelpFlag]) cf
                      \<and> subseq cf args' \<and> subseq oth args'
                      \<and> list_all (\<lambda>x. \<not> fst (isFlag (cmdFlags cmd @ [HelpFlag]) x)) oth))))"
proof (cases args)
  case Nil
  with assms show ?thesis by (simp add: reorderOptions_def)
next
  case (Cons arg0 rest)
  let ?gf = "appFlags app @ [VersionFlag] :: 'a flag list"
  from assms Cons obtain newArgs others where
    gl: "globalLoop ?gf rest [arg0] [] = Inr (newArgs, others)"
    by (auto simp: reorderOptions_def split: sum.splits)
  from globalLoop_split[OF gl] obtain g where
    g: "newArgs = [arg0] @ g" "mset g + mset others = mset rest" "subseq g rest"
       "subseq others rest" "list_all (\<lambda>x. \<not> fst (isFlag ?gf x)) others"
       "flagRun ?gf g"
    by auto
  have tail: "mset res = mset args \<and> (case others of
            [] \<Rightarrow> res = arg0 # g
          | name # args' \<Rightarrow>
              (case findCommand (appCommands app) name None of
                 None \<Rightarrow> res = arg0 # g @ others
               | Some cmd \<Rightarrow>
                   (\<exists>cf oth. res = arg0 # g @ name # cf @ oth
                      \<and> flagRun (cmdFlags cmd @ [HelpFlag]) cf
                      \<and> subseq cf args' \<and> subseq oth args'
                      \<and> list_all (\<lambda>x. \<not> fst (isFlag (cmdFlags cmd @ [HelpFlag]) x)) oth)))"
  proof (cases others)
    case Nil
    with assms Cons gl have "res = newArgs" by (simp add: reorderOptions_def)
    with g Nil Cons show ?thesis by simp
  next
    case oc: (Cons name args')
    show ?thesis
    proof (cases "findCommand (appCommands app) name None")
      case None
      with assms Cons gl oc have "res = newArgs @ others" by (simp add: reorderOptions_def)
      with g None oc Cons show ?thesis by (simp add: add.commute)
    next
      case (Some cmd)
      let ?cf = "cmdFlags cmd @ [HelpFlag] :: 'a flag list"
      from assms Cons gl oc Some obtain n2 o2 where
        cl: "commandLoop ?cf args' args' (newArgs @ [name]) [] = Inr (n2, o2)"
        and res: "res = n2 @ o2"
        by (auto simp: reorderOptions_def split: sum.splits)
      from commandLoop_split[OF cl] obtain cf where
        cf: "n2 = (newArgs @ [name]) @ cf" "mset cf + mset o2 = mset args'"
            "subseq cf args'" "subseq o2 args'"
            "list_all (\<lambda>x. \<not> fst (isFlag ?cf x)) o2" "flagRun ?cf cf"
        by auto
      have "mset res = mset args"
        using res cf(1,2) g(1,2) oc Cons
        by (simp add: add.assoc [symmetric])
      moreover have "\<exists>cf oth. res = arg0 # g @ name # cf @ oth
                      \<and> flagRun ?cf cf \<and> subseq cf args' \<and> subseq oth args'
                      \<and> list_all (\<lambda>x. \<not> fst (isFlag ?cf x)) oth"
        apply (rule exI[of _ cf], rule exI[of _ o2])
        using res cf g(1) by simp
      ultimately show ?thesis using oc Some by simp
    qed
  qed
  have hd: "hd res = arg0"
    using tail g(1) by (auto split: list.splits option.splits)
  have ex: "\<exists>g others.
        globalLoop ?gf rest [arg0] [] = Inr (arg0 # g, others)
      \<and> flagRun ?gf g \<and> subseq g rest \<and> subseq others rest
      \<and> list_all (\<lambda>x. \<not> fst (isFlag ?gf x)) others
      \<and> (case others of
            [] \<Rightarrow> res = arg0 # g
          | name # args' \<Rightarrow>
              (case findCommand (appCommands app) name None of
                 None \<Rightarrow> res = arg0 # g @ others
               | Some cmd \<Rightarrow>
                   (\<exists>cf oth. res = arg0 # g @ name # cf @ oth
                      \<and> flagRun (cmdFlags cmd @ [HelpFlag]) cf
                      \<and> subseq cf args' \<and> subseq oth args'
                      \<and> list_all (\<lambda>x. \<not> fst (isFlag (cmdFlags cmd @ [HelpFlag]) x)) oth)))"
    apply (rule exI[of _ g], rule exI[of _ others])
    using gl g tail by simp
  from tail hd ex show ?thesis
    unfolding Cons list.sel by simp
qed

theorem reorderOptions_permutation_witness:
  "reorderOptions example_app
      [''juicefs'', ''mount'', ''redis://localhost'', ''/mnt/jfs'',
       ''--cache-dir'', ''/data'', ''-d'', ''--verbose'']
     = Inr [''juicefs'', ''--verbose'', ''mount'', ''--cache-dir'', ''/data'', ''-d'',
            ''redis://localhost'', ''/mnt/jfs'']
   \<and> mset [''juicefs'', ''--verbose'', ''mount'', ''--cache-dir'', ''/data'', ''-d'',
            ''redis://localhost'', ''/mnt/jfs'']
     = mset [''juicefs'', ''mount'', ''redis://localhost'', ''/mnt/jfs'',
             ''--cache-dir'', ''/data'', ''-d'', ''--verbose'']"
proof -
  have h: "reorderOptions example_app
      [''juicefs'', ''mount'', ''redis://localhost'', ''/mnt/jfs'',
       ''--cache-dir'', ''/data'', ''-d'', ''--verbose'']
     = Inr [''juicefs'', ''--verbose'', ''mount'', ''--cache-dir'', ''/data'', ''-d'',
            ''redis://localhost'', ''/mnt/jfs'']"
    by code_simp
  from reorderOptions_permutation[OF h] h show ?thesis by blast
qed

section \<open>The claims about the chunk store\<close>







end
